theory Spec2Isabelle
  imports Main
begin

section \<open>Booking ledger and slot board of the salon backend\<close>

text \<open>
  A shallow embedding of \<^verbatim>\<open>controllers/bookingController.js\<close>,
  \<^verbatim>\<open>controllers/timeSlotController.js\<close>, \<^verbatim>\<open>models/Booking.js\<close> and
  \<^verbatim>\<open>models/TimeSlot.js\<close>. Each HTTP handler is a function from the environment of
  the request (clock, server time zone, notifier configuration), the request and the
  database to a response and the new database. The two collections are lists in
  insertion order. Every call that leaves the process (a write to a collection, a
  WhatsApp message) is appended to a chronological trace carried by the database value.

  An instant is a JavaScript \<^verbatim>\<open>Date\<close>: milliseconds since the epoch, as an integer.
  Strings are ASCII. One request reads the clock once. The optional fields
  \<^verbatim>\<open>email\<close>, \<^verbatim>\<open>serviceId\<close> and \<^verbatim>\<open>userId\<close> are never read by the scheduling logic and
  are left out of the documents.
\<close>

subsection \<open>Dates\<close>

text \<open>\<^verbatim>\<open>d.setUTCHours(0, 0, 0, 0)\<close>: the start of the UTC day of \<open>t\<close>.\<close>

definition utc_midnight :: "int \<Rightarrow> int" where
  "utc_midnight t = t - t mod 86400000"

text \<open>
  \<^verbatim>\<open>d.setHours(0, 0, 0, 0)\<close>: the start of the local day of \<open>t\<close>, for a server whose
  local time is UTC plus \<open>tz\<close> milliseconds.
\<close>

definition local_midnight :: "int \<Rightarrow> int \<Rightarrow> int" where
  "local_midnight tz t = utc_midnight (t + tz) - tz"

record env =
  now :: int
  tz_offset :: int
  twilio_ready :: bool

subsection \<open>Strings\<close>

text \<open>JavaScript truthiness of an optional string, and \<^verbatim>\<open>a || b\<close>.\<close>

definition truthy :: "string option \<Rightarrow> bool" where
  "truthy a = (case a of None \<Rightarrow> False | Some s \<Rightarrow> s \<noteq> [])"

definition js_or :: "string option \<Rightarrow> string option \<Rightarrow> string option" where
  "js_or a b = (if truthy a then a else b)"

definition is_digit :: "char \<Rightarrow> bool" where
  "is_digit c = (c \<in> set ''0123456789'')"

definition is_hex :: "char \<Rightarrow> bool" where
  "is_hex c = (c \<in> set ''0123456789abcdefABCDEF'')"

definition is_space :: "char \<Rightarrow> bool" where
  "is_space c = (c \<in> set [CHR 0x09, CHR 0x0A, CHR 0x0B, CHR 0x0C, CHR 0x0D, CHR 0x20])"

text \<open>\<^verbatim>\<open>s.trim()\<close>.\<close>

definition trim :: "string \<Rightarrow> string" where
  "trim s = rev (dropWhile is_space (rev (dropWhile is_space s)))"

text \<open>The pattern \<^verbatim>\<open>/^([0-1][0-9]|2[0-3]):[0-5][0-9]$/\<close> of the time fields.\<close>

fun hhmm :: "string \<Rightarrow> bool" where
  "hhmm [a, b, c, d, e] =
     ((a \<in> set ''01'' \<and> is_digit b \<or> a = CHR ''2'' \<and> b \<in> set ''0123'')
      \<and> c = CHR '':'' \<and> d \<in> set ''012345'' \<and> is_digit e)"
| "hhmm _ = False"

text \<open>The pattern \<^verbatim>\<open>/^[0-9]{10}$/\<close> of the phone number.\<close>

definition ten_digits :: "string \<Rightarrow> bool" where
  "ten_digits s = (length s = 10 \<and> list_all is_digit s)"

text \<open>
  A booking id is a MongoDB ObjectId, modelled by its 96-bit value. The handlers accept
  an id string matching \<^verbatim>\<open>/^[0-9a-fA-F]{24}$/\<close>; \<^verbatim>\<open>findById\<close> casts it to the ObjectId
  with that hexadecimal value.
\<close>

definition hex_val :: "char \<Rightarrow> nat" where
  "hex_val c = (let n = of_char c in
     if is_digit c then n - 48 else if c \<in> set ''abcdef'' then n - 87 else n - 55)"

definition parse_oid :: "string \<Rightarrow> nat option" where
  "parse_oid s = (if length s = 24 \<and> list_all is_hex s
     then Some (foldl (\<lambda>a c. 16 * a + hex_val c) 0 s) else None)"

text \<open>The decimal digits of a number, as template literals print it.\<close>

fun decimal :: "nat \<Rightarrow> string" where
  "decimal n = (if n < 10 then [char_of (48 + n)]
     else decimal (n div 10) @ [char_of (48 + n mod 10)])"

subsection \<open>Documents\<close>

datatype status = Pending | Confirmed | Cancelled | Completed

definition status_of_string :: "string \<Rightarrow> status option" where
  "status_of_string s =
     (if s = ''pending'' then Some Pending
      else if s = ''confirmed'' then Some Confirmed
      else if s = ''cancelled'' then Some Cancelled
      else if s = ''completed'' then Some Completed
      else None)"

record booking =
  bid :: nat
  name :: string
  phone :: string
  service :: string
  date :: int
  time :: "string option"
  timeSlot :: "string option"
  status :: status
  notes' :: "string option"

record slot =
  slot_time :: string
  available :: bool
  bookedBy :: "nat option"

record timeslot =
  ts_date :: int
  slots :: "slot list"

datatype template = Confirmation | Cancellation | Completion

text \<open>The \<^verbatim>\<open>$set\<close> of the three positional updates the handlers send to the slot board.\<close>

datatype slot_set = Mark_unavailable nat | Mark_available | Block

datatype effect =
    Ledger_insert nat
  | Ledger_save nat
  | Ledger_delete nat
  | Board_insert int
  | Board_update int "string option" slot_set
  | WhatsApp template string

record db =
  bookings :: "booking list"
  timeslots :: "timeslot list"
  next_id :: nat
  trace :: "effect list"

subsection \<open>Responses\<close>

datatype field = F_name | F_phone | F_service | F_date | F_timeSlot | F_time | F_notes
  | F_status | F_or

text \<open>The three places of \<^verbatim>\<open>createBooking\<close> that answer 409.\<close>

datatype conflict_source = Slot_board | Ledger_check | Unique_index

datatype error =
    Invalid_id
  | Validation field
  | Time_required
  | Past_booking
  | Conflict conflict_source
  | Model_validation
  | Not_found
  | Already_cancelled
  | Past_cancel
  | Failure

datatype response =
    Created booking
  | Updated booking
  | Cancel_ok
  | Deleted
  | Slot_list "slot list"
  | Blocked
  | Rejected error

fun http_status :: "response \<Rightarrow> nat" where
  "http_status (Created _) = 201"
| "http_status (Rejected Invalid_id) = 400"
| "http_status (Rejected (Validation _)) = 400"
| "http_status (Rejected Time_required) = 400"
| "http_status (Rejected Past_booking) = 400"
| "http_status (Rejected (Conflict _)) = 409"
| "http_status (Rejected Model_validation) = 400"
| "http_status (Rejected Not_found) = 404"
| "http_status (Rejected Already_cancelled) = 400"
| "http_status (Rejected Past_cancel) = 400"
| "http_status (Rejected Failure) = 500"
| "http_status _ = 200"

subsection \<open>The Booking model (models/Booking.js)\<close>

text \<open>
  The validators of the schema: \<^verbatim>\<open>required\<close>, \<^verbatim>\<open>minlength\<close>, \<^verbatim>\<open>maxlength\<close>,
  \<^verbatim>\<open>match\<close> (which accepts the empty string) and the validator of \<^verbatim>\<open>date\<close>, which
  compares with the local midnight of the moment of validation.
\<close>

definition schema_valid :: "env \<Rightarrow> booking \<Rightarrow> bool" where
  "schema_valid e b =
     (2 \<le> length (name b) \<and> length (name b) \<le> 100
      \<and> ten_digits (phone b)
      \<and> service b \<noteq> []
      \<and> local_midnight (tz_offset e) (now e) \<le> date b
      \<and> (case time b of None \<Rightarrow> False | Some s \<Rightarrow> s \<noteq> [] \<and> hhmm s)
      \<and> (case timeSlot b of None \<Rightarrow> True | Some s \<Rightarrow> s = [] \<or> hhmm s)
      \<and> (case notes' b of None \<Rightarrow> True | Some s \<Rightarrow> length s \<le> 500))"

text \<open>\<^verbatim>\<open>bookingSchema.pre('save', ...)\<close>.\<close>

definition pre_save :: "booking \<Rightarrow> booking" where
  "pre_save b =
     (if truthy (time b) \<and> \<not> truthy (timeSlot b) then b\<lparr>timeSlot := time b\<rparr>
      else if truthy (timeSlot b) \<and> \<not> truthy (time b) then b\<lparr>time := timeSlot b\<rparr>
      else b)"

datatype save_error = Validation_error | Duplicate_key

text \<open>
  \<^verbatim>\<open>doc.save()\<close> of a new document: Mongoose validates the document, then runs the
  \<^verbatim>\<open>pre('save')\<close> hook of the schema, then inserts; the insert fails with error 11000
  when a stored document has the same key in the unique index
  \<^verbatim>\<open>{ date: 1, time: 1 }\<close>.
\<close>

definition save_new :: "env \<Rightarrow> booking \<Rightarrow> db \<Rightarrow> save_error + booking \<times> db" where
  "save_new e doc s =
     (if \<not> schema_valid e doc then Inl Validation_error
      else let d = pre_save doc in
        if list_ex (\<lambda>b. date b = date d \<and> time b = time d) (bookings s)
        then Inl Duplicate_key
        else Inr (d, s\<lparr>bookings := bookings s @ [d],
                       trace := trace s @ [Ledger_insert (bid d)]\<rparr>))"

definition findById :: "nat \<Rightarrow> db \<Rightarrow> booking option" where
  "findById i s = find (\<lambda>b. bid b = i) (bookings s)"

text \<open>
  \<^verbatim>\<open>doc.save()\<close> of a document loaded with \<^verbatim>\<open>findById\<close>: the same validation and
  hook. Mongoose then sends the paths whose value differs from the loaded one; when
  no path was modified (the assignments of the handler and of the hook all wrote the
  value the document already had) nothing is sent and the collection is not touched.
  Otherwise the stored document of that id is replaced. The handlers change only
  \<^verbatim>\<open>status\<close> and \<^verbatim>\<open>notes\<close>, and a document that passed validation has a \<^verbatim>\<open>time\<close> the
  hook leaves alone, so the key of the unique index does not change.
\<close>

definition save_existing :: "env \<Rightarrow> booking \<Rightarrow> db \<Rightarrow> save_error + booking \<times> db" where
  "save_existing e doc s =
     (if \<not> schema_valid e doc then Inl Validation_error
      else let d = pre_save doc in
        if findById (bid d) s = Some d then Inr (d, s)
        else Inr (d, s\<lparr>bookings := map (\<lambda>b. if bid b = bid d then d else b) (bookings s),
                        trace := trace s @ [Ledger_save (bid d)]\<rparr>))"

definition findByIdAndDelete :: "nat \<Rightarrow> db \<Rightarrow> db" where
  "findByIdAndDelete i s =
     s\<lparr>bookings := filter (\<lambda>b. bid b \<noteq> i) (bookings s),
       trace := trace s @ [Ledger_delete i]\<rparr>"

subsection \<open>The TimeSlot model (models/TimeSlot.js)\<close>

definition apply_set :: "slot_set \<Rightarrow> slot \<Rightarrow> slot" where
  "apply_set u sl =
     (case u of
        Mark_unavailable i \<Rightarrow> sl\<lparr>available := False, bookedBy := Some i\<rparr>
      | Mark_available \<Rightarrow> sl\<lparr>available := True, bookedBy := None\<rparr>
      | Block \<Rightarrow> sl\<lparr>available := False\<rparr>)"

text \<open>The positional operator \<^verbatim>\<open>slots.$\<close>: the first element the filter matched.\<close>

fun set_first_slot :: "string \<Rightarrow> slot_set \<Rightarrow> slot list \<Rightarrow> slot list" where
  "set_first_slot t u [] = []"
| "set_first_slot t u (sl # sls) =
     (if slot_time sl = t then apply_set u sl # sls else sl # set_first_slot t u sls)"

text \<open>\<^verbatim>\<open>updateOne\<close> changes the first document the filter matches.\<close>

fun update_first_doc :: "int \<Rightarrow> string \<Rightarrow> slot_set \<Rightarrow> timeslot list \<Rightarrow> timeslot list" where
  "update_first_doc d t u [] = []"
| "update_first_doc d t u (doc # docs) =
     (if ts_date doc = d \<and> list_ex (\<lambda>sl. slot_time sl = t) (slots doc)
      then doc\<lparr>slots := set_first_slot t u (slots doc)\<rparr> # docs
      else doc # update_first_doc d t u docs)"

text \<open>
  \<^verbatim>\<open>TimeSlot.updateOne({ date, 'slots.time': time }, { $set: ... })\<close>. With an
  undefined time no slot row is addressed.
\<close>

definition TimeSlot_updateOne :: "int \<Rightarrow> string option \<Rightarrow> slot_set \<Rightarrow> db \<Rightarrow> db" where
  "TimeSlot_updateOne d t u s =
     s\<lparr>timeslots := (case t of None \<Rightarrow> timeslots s
                      | Some l \<Rightarrow> update_first_doc d l u (timeslots s)),
       trace := trace s @ [Board_update d t u]\<rparr>"

text \<open>The slot row such an update addresses for a date and a label, if any.\<close>

fun slot_at :: "int \<Rightarrow> string \<Rightarrow> timeslot list \<Rightarrow> slot option" where
  "slot_at d t [] = None"
| "slot_at d t (doc # docs) =
     (if ts_date doc = d \<and> list_ex (\<lambda>sl. slot_time sl = t) (slots doc)
      then find (\<lambda>sl. slot_time sl = t) (slots doc)
      else slot_at d t docs)"

text \<open>\<^verbatim>\<open>TimeSlot.findOne({ date })\<close>.\<close>

definition TimeSlot_findOne :: "int \<Rightarrow> db \<Rightarrow> timeslot option" where
  "TimeSlot_findOne d s = find (\<lambda>doc. ts_date doc = d) (timeslots s)"

subsection \<open>Request validation (the Joi schemas of the controller)\<close>

text \<open>
  The body of a create request as it arrives: every key may be missing. \<open>req_date\<close> is
  the instant Joi converts the \<^verbatim>\<open>date\<close> key to, \<open>None\<close> when the key is missing or is
  not a date.
\<close>

record create_req =
  req_name :: "string option"
  req_phone :: "string option"
  req_service :: "string option"
  req_date :: "int option"
  req_timeSlot :: "string option"
  req_time :: "string option"
  req_notes :: "string option"
  req_status :: "string option"

record create_value =
  v_name :: string
  v_phone :: string
  v_service :: string
  v_date :: int
  v_timeSlot :: "string option"
  v_time :: "string option"
  v_notes :: "string option"
  v_status :: "status option"

text \<open>
  \<^verbatim>\<open>bookingSchema.validate(req.body)\<close>: the keys are checked in the order of the schema
  and the first failure is reported; \<^verbatim>\<open>Joi.date().min('now')\<close> accepts an instant that
  is not before the clock; \<^verbatim>\<open>.or('timeSlot', 'time')\<close> is checked last.
\<close>

definition bookingSchema_validate :: "env \<Rightarrow> create_req \<Rightarrow> field + create_value" where
  "bookingSchema_validate e r =
     (case req_name r of None \<Rightarrow> Inl F_name | Some n \<Rightarrow>
      if \<not> (2 \<le> length n \<and> length n \<le> 100) then Inl F_name else
      case req_phone r of None \<Rightarrow> Inl F_phone | Some p \<Rightarrow>
      if \<not> ten_digits p then Inl F_phone else
      case req_service r of None \<Rightarrow> Inl F_service | Some sv \<Rightarrow>
      if sv = [] then Inl F_service else
      case req_date r of None \<Rightarrow> Inl F_date | Some d \<Rightarrow>
      if d < now e then Inl F_date else
      if \<not> (case req_timeSlot r of None \<Rightarrow> True | Some t \<Rightarrow> hhmm t) then Inl F_timeSlot else
      if \<not> (case req_time r of None \<Rightarrow> True | Some t \<Rightarrow> hhmm t) then Inl F_time else
      if \<not> (case req_notes r of None \<Rightarrow> True | Some t \<Rightarrow> length t \<le> 500) then Inl F_notes else
      case (case req_status r of None \<Rightarrow> Some None
            | Some x \<Rightarrow> map_option Some (status_of_string x)) of
        None \<Rightarrow> Inl F_status
      | Some st \<Rightarrow>
      if req_timeSlot r = None \<and> req_time r = None then Inl F_or else
      Inr \<lparr>v_name = n, v_phone = p, v_service = sv, v_date = d,
           v_timeSlot = req_timeSlot r, v_time = req_time r,
           v_notes = req_notes r, v_status = st\<rparr>)"

record update_req =
  upd_status :: "string option"
  upd_notes :: "string option"

text \<open>\<^verbatim>\<open>updateBookingSchema.validate(req.body)\<close>.\<close>

definition updateBookingSchema_validate :: "update_req \<Rightarrow> field + status \<times> string option" where
  "updateBookingSchema_validate u =
     (case upd_status u of None \<Rightarrow> Inl F_status | Some x \<Rightarrow>
      case status_of_string x of None \<Rightarrow> Inl F_status | Some st \<Rightarrow>
      if \<not> (case upd_notes u of None \<Rightarrow> True | Some t \<Rightarrow> length t \<le> 500) then Inl F_notes
      else Inr (st, upd_notes u))"

subsection \<open>The booking handlers (controllers/bookingController.js)\<close>

text \<open>
  The message goes out only when Twilio was initialised and the sender number is set
  (\<^verbatim>\<open>twilio && process.env.TWILIO_WHATSAPP_FROM\<close>); a failure of the call is caught.
\<close>

definition send_whatsapp :: "env \<Rightarrow> template \<Rightarrow> booking \<Rightarrow> db \<Rightarrow> db" where
  "send_whatsapp e k b s =
     (if twilio_ready e then s\<lparr>trace := trace s @ [WhatsApp k (phone b)]\<rparr> else s)"

text \<open>\<^verbatim>\<open>booking.timeSlot || booking.time\<close>.\<close>

definition effective_time :: "booking \<Rightarrow> string option" where
  "effective_time b = js_or (timeSlot b) (time b)"

text \<open>The check of the slot board in \<^verbatim>\<open>createBooking\<close> (lines 156 to 171).\<close>

definition slot_taken :: "int \<Rightarrow> string \<Rightarrow> db \<Rightarrow> bool" where
  "slot_taken d t s =
     (case TimeSlot_findOne d s of None \<Rightarrow> False
      | Some doc \<Rightarrow>
         (case find (\<lambda>sl. slot_time sl = t) (slots doc) of None \<Rightarrow> False
          | Some sl \<Rightarrow> \<not> available sl))"

text \<open>The check of the ledger in \<^verbatim>\<open>createBooking\<close> (lines 173 to 188).\<close>

definition existingBooking :: "int \<Rightarrow> string \<Rightarrow> db \<Rightarrow> booking option" where
  "existingBooking d t s =
     find (\<lambda>b. date b = d \<and> (timeSlot b = Some t \<or> time b = Some t) \<and> status b \<noteq> Cancelled)
       (bookings s)"

definition createBooking :: "env \<Rightarrow> create_req \<Rightarrow> db \<Rightarrow> response \<times> db" where
  "createBooking e r s =
     (case bookingSchema_validate e r of
        Inl f \<Rightarrow> (Rejected (Validation f), s)
      | Inr v \<Rightarrow>
         (case js_or (v_timeSlot v) (v_time v) of
            None \<Rightarrow> (Rejected Time_required, s)
          | Some selectedTime \<Rightarrow>
             if selectedTime = [] then (Rejected Time_required, s)
             else let bookingDate = utc_midnight (v_date v);
                      today = utc_midnight (now e) in
               if bookingDate < today then (Rejected Past_booking, s)
               else if slot_taken bookingDate selectedTime s
                 then (Rejected (Conflict Slot_board), s)
               else if existingBooking bookingDate selectedTime s \<noteq> None
                 then (Rejected (Conflict Ledger_check), s)
               else let doc = \<lparr>bid = next_id s, name = trim (v_name v), phone = v_phone v,
                                service = trim (v_service v), date = bookingDate,
                                time = Some selectedTime, timeSlot = Some selectedTime,
                                status = (case v_status v of None \<Rightarrow> Confirmed | Some st \<Rightarrow> st),
                                notes' = (case v_notes v of None \<Rightarrow> None
                                          | Some n \<Rightarrow> if trim n = [] then None else Some (trim n))\<rparr>;
                        s1 = s\<lparr>next_id := Suc (next_id s)\<rparr> in
                 (case save_new e doc s1 of
                    Inl Duplicate_key \<Rightarrow> (Rejected (Conflict Unique_index), s1)
                  | Inl Validation_error \<Rightarrow> (Rejected Model_validation, s1)
                  | Inr (b, s2) \<Rightarrow>
                     (Created b,
                      send_whatsapp e Confirmation b
                        (TimeSlot_updateOne bookingDate (Some selectedTime)
                           (Mark_unavailable (bid b)) s2)))))"

definition updateBooking :: "env \<Rightarrow> string \<Rightarrow> update_req \<Rightarrow> db \<Rightarrow> response \<times> db" where
  "updateBooking e idstr u s =
     (case parse_oid idstr of None \<Rightarrow> (Rejected Invalid_id, s) | Some i \<Rightarrow>
      case updateBookingSchema_validate u of Inl f \<Rightarrow> (Rejected (Validation f), s)
      | Inr (st, n) \<Rightarrow>
      case findById i s of None \<Rightarrow> (Rejected Not_found, s) | Some b \<Rightarrow>
      let oldStatus = status b;
          b1 = b\<lparr>status := st\<rparr>;
          b2 = (case n of None \<Rightarrow> b1 | Some x \<Rightarrow> b1\<lparr>notes' := Some x\<rparr>) in
      case save_existing e b2 s of Inl err \<Rightarrow> (Rejected Failure, s)
      | Inr (b3, s1) \<Rightarrow>
      let s2 = (if st = Cancelled \<and> oldStatus \<noteq> Cancelled
                then send_whatsapp e Cancellation b3
                       (TimeSlot_updateOne (date b3) (effective_time b3) Mark_available s1)
                else s1);
          s3 = (if st = Confirmed \<and> oldStatus \<noteq> Confirmed
                then send_whatsapp e Confirmation b3 s2 else s2);
          s4 = (if st = Completed \<and> oldStatus \<noteq> Completed
                then send_whatsapp e Completion b3 s3 else s3) in
      (Updated b3, s4))"

definition cancelBooking :: "env \<Rightarrow> string \<Rightarrow> db \<Rightarrow> response \<times> db" where
  "cancelBooking e idstr s =
     (case parse_oid idstr of None \<Rightarrow> (Rejected Invalid_id, s) | Some i \<Rightarrow>
      case findById i s of None \<Rightarrow> (Rejected Not_found, s) | Some b \<Rightarrow>
      if status b = Cancelled then (Rejected Already_cancelled, s)
      else if utc_midnight (date b) < utc_midnight (now e) then (Rejected Past_cancel, s)
      else case save_existing e (b\<lparr>status := Cancelled\<rparr>) s of
        Inl err \<Rightarrow> (Rejected Failure, s)
      | Inr (b1, s1) \<Rightarrow>
         (Cancel_ok,
          send_whatsapp e Cancellation b1
            (TimeSlot_updateOne (date b1) (effective_time b1) Mark_available s1)))"

definition deleteBooking :: "string \<Rightarrow> db \<Rightarrow> response \<times> db" where
  "deleteBooking idstr s =
     (case parse_oid idstr of None \<Rightarrow> (Rejected Invalid_id, s) | Some i \<Rightarrow>
      case findById i s of None \<Rightarrow> (Rejected Not_found, s) | Some b \<Rightarrow>
      (Deleted,
       findByIdAndDelete i
         (TimeSlot_updateOne (date b) (effective_time b) Mark_available s)))"

subsection \<open>The slot board handlers (controllers/timeSlotController.js)\<close>

text \<open>
  \<^verbatim>\<open>Array.from({ length: 10 }, (_, i) => ({ time: `${9 + i}:00 AM`, available: true }))\<close>.
\<close>

definition default_slots :: "slot list" where
  "default_slots =
     map (\<lambda>i. \<lparr>slot_time = decimal (9 + i) @ '':00 AM'', available = True, bookedBy = None\<rparr>)
       [0..<10]"

text \<open>
  The query parameter goes through \<^verbatim>\<open>new Date(date)\<close>: \<open>None\<close> stands for an invalid
  date, which the query refuses to cast, and the handler answers 500.
\<close>

definition getTimeSlots :: "int option \<Rightarrow> db \<Rightarrow> response \<times> db" where
  "getTimeSlots q s =
     (case q of None \<Rightarrow> (Rejected Failure, s) | Some d \<Rightarrow>
      case TimeSlot_findOne d s of
        Some doc \<Rightarrow> (Slot_list (slots doc), s)
      | None \<Rightarrow>
         (Slot_list default_slots,
          s\<lparr>timeslots := timeslots s @ [\<lparr>ts_date = d, slots = default_slots\<rparr>],
            trace := trace s @ [Board_insert d]\<rparr>))"

text \<open>
  \<^verbatim>\<open>blockSlot\<close>: the row of the date and label is marked unavailable, its
  back-reference left as it is; \<open>None\<close> for a date the query refuses to cast.
\<close>

definition blockSlot :: "int option \<Rightarrow> string option \<Rightarrow> db \<Rightarrow> response \<times> db" where
  "blockSlot q t s =
     (case q of None \<Rightarrow> (Rejected Failure, s)
      | Some d \<Rightarrow> (Blocked, TimeSlot_updateOne d t Block s))"

subsection \<open>Vocabulary of the properties\<close>

text \<open>
  An entry of the slot board whose labels are those of the default generator; the flags
  of its rows may have been changed since.
\<close>

definition generated :: "timeslot \<Rightarrow> bool" where
  "generated doc = (map slot_time (slots doc) = map slot_time default_slots)"

text \<open>The WhatsApp messages of a trace.\<close>

fun notifications :: "effect list \<Rightarrow> (template \<times> string) list" where
  "notifications [] = []"
| "notifications (WhatsApp k p # es) = (k, p) # notifications es"
| "notifications (x # es) = notifications es"

text \<open>The updates of the slot board in a trace.\<close>

fun board_updates :: "effect list \<Rightarrow> (int \<times> string option \<times> slot_set) list" where
  "board_updates [] = []"
| "board_updates (Board_update d t u # es) = (d, t, u) # board_updates es"
| "board_updates (x # es) = board_updates es"

subsection \<open>Sample requests\<close>

text \<open>
  The clock reads 10:00 UTC on day 5 after the epoch (468000000 ms); day 6 starts at
  518400000 ms and day 5 at 432000000 ms.
\<close>

definition utc_server :: env where
  "utc_server = \<lparr>now = 468000000, tz_offset = 0, twilio_ready = True\<rparr>"

definition empty_db :: db where
  "empty_db = \<lparr>bookings = [], timeslots = [], next_id = 1, trace = []\<rparr>"

definition asha_day6 :: create_req where
  "asha_day6 = \<lparr>req_name = Some ''Asha'', req_phone = Some ''9876543210'',
     req_service = Some ''Haircut'', req_date = Some 518400000,
     req_timeSlot = Some ''14:00'', req_time = None, req_notes = None,
     req_status = None\<rparr>"

text \<open>A board for day 6, materialized by a query, with its first row blocked by hand.\<close>

definition board_db :: db where
  "board_db = snd (blockSlot (Some 518400000) (Some ''9:00 AM'')
     (snd (getTimeSlots (Some 518400000) empty_db)))"

text \<open>
  A database written by hand: a completed booking for day 6 at 14:00 and a board for
  day 6 whose only row carries that time and is marked as taken by the booking.
\<close>

definition hand_board_db :: db where
  "hand_board_db =
     \<lparr>bookings = [\<lparr>bid = 1, name = ''Asha'', phone = ''9876543210'', service = ''Haircut'',
          date = 518400000, time = Some ''14:00'', timeSlot = Some ''14:00'',
          status = Completed, notes' = None\<rparr>],
      timeslots = [\<lparr>ts_date = 518400000,
          slots = [\<lparr>slot_time = ''14:00'', available = False, bookedBy = Some 1\<rparr>]\<rparr>],
      next_id = 2, trace = []\<rparr>"

text \<open>What the validation returns for \<open>asha_day6\<close>.\<close>

definition asha_value :: create_value where
  "asha_value = \<lparr>v_name = ''Asha'', v_phone = ''9876543210'', v_service = ''Haircut'',
     v_date = 518400000, v_timeSlot = Some ''14:00'', v_time = None, v_notes = None,
     v_status = None\<rparr>"

text \<open>
  A second customer asks for day 6 at 14:00, one second after midnight, under the key
  \<^verbatim>\<open>time\<close> and with status pending.
\<close>

definition ravi_day6 :: create_req where
  "ravi_day6 = \<lparr>req_name = Some ''Ravi'', req_phone = Some ''9123456780'',
     req_service = Some ''Facial'', req_date = Some 518401000,
     req_timeSlot = None, req_time = Some ''14:00'', req_notes = Some ''first visit'',
     req_status = Some ''pending''\<rparr>"

definition ravi_value :: create_value where
  "ravi_value = \<lparr>v_name = ''Ravi'', v_phone = ''9123456780'', v_service = ''Facial'',
     v_date = 518401000, v_timeSlot = None, v_time = Some ''14:00'',
     v_notes = Some ''first visit'', v_status = Some Pending\<rparr>"

text \<open>The booking the first request creates, and the database after it.\<close>

definition asha_booking :: booking where
  "asha_booking = \<lparr>bid = 1, name = ''Asha'', phone = ''9876543210'', service = ''Haircut'',
     date = 518400000, time = Some ''14:00'', timeSlot = Some ''14:00'',
     status = Confirmed, notes' = None\<rparr>"

definition booked_db :: db where
  "booked_db = snd (createBooking utc_server asha_day6 empty_db)"





text \<open>The booking the second request creates in an empty database, stored with no trace.\<close>

definition ravi_pending :: booking where
  "ravi_pending = \<lparr>bid = 1, name = ''Ravi'', phone = ''9123456780'', service = ''Facial'',
     date = 518400000, time = Some ''14:00'', timeSlot = Some ''14:00'',
     status = Pending, notes' = Some ''first visit''\<rparr>"

definition pending_db :: db where
  "pending_db = \<lparr>bookings = [ravi_pending], timeslots = [], next_id = 2, trace = []\<rparr>"

text \<open>The id string of ObjectId 1, two update requests, and a server without Twilio.\<close>

definition id1 :: string where
  "id1 = ''000000000000000000000001''"

definition to_completed :: update_req where
  "to_completed = \<lparr>upd_status = Some ''completed'', upd_notes = None\<rparr>"

definition to_cancelled :: update_req where
  "to_cancelled = \<lparr>upd_status = Some ''cancelled'', upd_notes = None\<rparr>"

definition quiet_server :: env where
  "quiet_server = \<lparr>now = 468000000, tz_offset = 0, twilio_ready = False\<rparr>"

text \<open>The database after the first booking was created and then cancelled.\<close>

definition cancelled_db :: db where
  "cancelled_db = snd (cancelBooking utc_server id1 booked_db)"

text \<open>
  The first request dated day 5 at 00:00 UTC; the clock of day 4 and of day 6 at 10:00
  UTC on a server in UTC, and of day 4 and day 5 on a server five hours west of UTC;
  the databases after the request was served on day 4.
\<close>

definition asha_day5 :: create_req where
  "asha_day5 = asha_day6\<lparr>req_date := Some 432000000\<rparr>"

definition utc_day4 :: env where
  "utc_day4 = \<lparr>now = 381600000, tz_offset = 0, twilio_ready = True\<rparr>"

definition utc_day6 :: env where
  "utc_day6 = \<lparr>now = 554400000, tz_offset = 0, twilio_ready = True\<rparr>"

definition new_york_day4 :: env where
  "new_york_day4 = \<lparr>now = 381600000, tz_offset = - 18000000, twilio_ready = True\<rparr>"

definition new_york_day5 :: env where
  "new_york_day5 = \<lparr>now = 468000000, tz_offset = - 18000000, twilio_ready = True\<rparr>"

definition day5_db :: db where
  "day5_db = snd (createBooking utc_day4 asha_day5 empty_db)"

definition day5_db_ny :: db where
  "day5_db_ny = snd (createBooking new_york_day4 asha_day5 empty_db)"

section \<open>Properties\<close>

subsection \<open>Lists and the slot board\<close>

lemma find_app:
  "find P (xs @ ys) = (case find P xs of None \<Rightarrow> find P ys | Some x \<Rightarrow> Some x)"
  by (induction xs) auto

lemma find_none_if_no_ex: "\<not> list_ex P xs \<Longrightarrow> find P xs = None"
  by (simp add: find_None_iff list_ex_iff)

lemma default_labels:
  "map slot_time default_slots =
     [''9:00 AM'', ''10:00 AM'', ''11:00 AM'', ''12:00 AM'', ''13:00 AM'',
      ''14:00 AM'', ''15:00 AM'', ''16:00 AM'', ''17:00 AM'', ''18:00 AM'']"
  by code_simp

lemma default_all_available: "list_all available default_slots"
  by code_simp

lemma hhmm_length: "hhmm t \<Longrightarrow> length t = 5"
  by (induction t rule: hhmm.induct) simp_all

lemma generated_no_hhmm:
  assumes "generated doc" and "hhmm t"
  shows "\<not> list_ex (\<lambda>sl. slot_time sl = t) (slots doc)"
proof
  assume "list_ex (\<lambda>sl. slot_time sl = t) (slots doc)"
  then have "t \<in> set (map slot_time (slots doc))"
    by (auto simp: list_ex_iff)
  with assms(1) have "t \<in> set (map slot_time default_slots)"
    by (simp add: generated_def)
  then have "length t \<noteq> 5"
    unfolding default_labels by auto
  with hhmm_length [OF assms(2)] show False by simp
qed

lemma slot_time_apply_set [simp]: "slot_time (apply_set u sl) = slot_time sl"
  by (cases u) (simp_all add: apply_set_def)

lemma list_ex_set_first_slot [simp]:
  "list_ex (\<lambda>sl. slot_time sl = t) (set_first_slot t u sls) =
     list_ex (\<lambda>sl. slot_time sl = t) sls"
  by (induction sls) auto

lemma find_set_first_slot:
  "find (\<lambda>sl. slot_time sl = t) (set_first_slot t u sls) =
     map_option (apply_set u) (find (\<lambda>sl. slot_time sl = t) sls)"
  by (induction sls) auto

lemma slot_at_update_first_doc:
  "slot_at d t (update_first_doc d t u docs) = map_option (apply_set u) (slot_at d t docs)"
  by (induction docs) (auto simp: find_set_first_slot)

subsection \<open>C8: the slot board is materialized once\<close>

text \<open>
  Claim C8. A query of the slot board for a date with no entry answers the sequence of the
  default generator, a constant whose rows are all available, and appends an entry
  holding it; the same query on the resulting database answers that sequence and
  changes nothing. Whenever an entry exists for the date, the query answers the rows
  stored in it, as they are, and leaves the database as it is.
\<close>

theorem getTimeSlots_materializes_once:
  "(TimeSlot_findOne d s = None \<longrightarrow>
      fst (getTimeSlots (Some d) s) = Slot_list default_slots
      \<and> list_all available default_slots
      \<and> timeslots (snd (getTimeSlots (Some d) s)) =
          timeslots s @ [\<lparr>ts_date = d, slots = default_slots\<rparr>]
      \<and> getTimeSlots (Some d) (snd (getTimeSlots (Some d) s)) =
          (Slot_list default_slots, snd (getTimeSlots (Some d) s)))
   \<and> (TimeSlot_findOne d s = Some doc \<longrightarrow>
        getTimeSlots (Some d) s = (Slot_list (slots doc), s))"
proof -
  have reuse: "getTimeSlots (Some d) s = (Slot_list (slots doc), s)"
    if "TimeSlot_findOne d s = Some doc" for s doc
    using that by (simp add: getTimeSlots_def)
  have fresh: "getTimeSlots (Some d) s =
      (Slot_list default_slots,
       s\<lparr>timeslots := timeslots s @ [\<lparr>ts_date = d, slots = default_slots\<rparr>],
         trace := trace s @ [Board_insert d]\<rparr>)"
    if "TimeSlot_findOne d s = None"
    using that by (simp add: getTimeSlots_def)
  have again: "TimeSlot_findOne d
      (s\<lparr>timeslots := timeslots s @ [\<lparr>ts_date = d, slots = default_slots\<rparr>],
         trace := trace s @ [Board_insert d]\<rparr>) = Some \<lparr>ts_date = d, slots = default_slots\<rparr>"
    if "TimeSlot_findOne d s = None"
    using that by (simp add: TimeSlot_findOne_def find_app)
  show ?thesis
    using reuse [of s doc] fresh reuse [OF again] default_all_available
    by auto
qed

theorem getTimeSlots_materializes_once_witness:
  "TimeSlot_findOne 518400000 empty_db = None
   \<and> fst (getTimeSlots (Some 518400000) empty_db) = Slot_list default_slots
   \<and> getTimeSlots (Some 518400000) (snd (getTimeSlots (Some 518400000) empty_db)) =
       (Slot_list default_slots, snd (getTimeSlots (Some 518400000) empty_db))
   \<and> TimeSlot_findOne 518400000 board_db = Some (hd (timeslots board_db))
   \<and> getTimeSlots (Some 518400000) board_db =
       (Slot_list (slots (hd (timeslots board_db))), board_db)
   \<and> slots (hd (timeslots board_db)) \<noteq> default_slots"
proof -
  have h1: "TimeSlot_findOne 518400000 empty_db = None"
    by code_simp
  have h2: "TimeSlot_findOne 518400000 board_db = Some (hd (timeslots board_db))"
    by code_simp
  have h3: "slots (hd (timeslots board_db)) \<noteq> default_slots"
    by code_simp
  show ?thesis
    using h1 h2 h3
      getTimeSlots_materializes_once [of 518400000 empty_db "hd (timeslots empty_db)"]
      getTimeSlots_materializes_once [of 518400000 board_db "hd (timeslots board_db)"]
    by simp
qed

subsection \<open>Validated create requests\<close>

lemma validate_Inr:
  assumes "bookingSchema_validate e r = Inr v"
  shows "now e \<le> v_date v"
    and "v_timeSlot v = req_timeSlot r" and "v_time v = req_time r"
    and "req_date r = Some (v_date v)"
    and "\<And>t. v_timeSlot v = Some t \<Longrightarrow> hhmm t"
    and "\<And>t. v_time v = Some t \<Longrightarrow> hhmm t"
    and "v_timeSlot v \<noteq> None \<or> v_time v \<noteq> None"
  using assms
  by (auto simp: bookingSchema_validate_def split: option.splits if_splits)

lemma hhmm_nonempty: "hhmm t \<Longrightarrow> t \<noteq> []"
  by auto

lemma selected_hhmm:
  assumes "bookingSchema_validate e r = Inr v"
    and "js_or (v_timeSlot v) (v_time v) = Some t"
  shows "hhmm t"
  using assms(2) validate_Inr(5,6) [OF assms(1)]
  by (auto simp: js_or_def split: if_splits)

lemma selected_exists:
  assumes "bookingSchema_validate e r = Inr v"
  shows "\<exists>t. js_or (v_timeSlot v) (v_time v) = Some t"
  using validate_Inr(5,6,7) [OF assms] hhmm_nonempty
  by (cases "v_timeSlot v"; cases "v_time v") (auto simp: js_or_def truthy_def)

lemma validated_not_past:
  assumes "bookingSchema_validate e r = Inr v"
  shows "\<not> utc_midnight (v_date v) < utc_midnight (now e)"
proof -
  have "now e \<le> v_date v" by (rule validate_Inr(1) [OF assms])
  then have "now e div 86400000 \<le> v_date v div 86400000"
    by (rule zdiv_mono1) simp
  moreover have "utc_midnight x = x div 86400000 * 86400000" for x
    by (simp add: utc_midnight_def minus_mod_eq_div_mult)
  ultimately show ?thesis by simp
qed

lemma timeslots_save_new:
  "save_new e doc s = Inr (b, s') \<Longrightarrow> timeslots s' = timeslots s"
  by (auto simp: save_new_def Let_def split: if_splits)

lemma timeslots_save_existing:
  "save_existing e doc s = Inr (b, s') \<Longrightarrow> timeslots s' = timeslots s"
  by (auto simp: save_existing_def Let_def split: if_splits)

lemma timeslots_send_whatsapp [simp]:
  "timeslots (send_whatsapp e k b s) = timeslots s"
  by (simp add: send_whatsapp_def)

lemma length_update_first_doc [simp]: "length (update_first_doc d t u docs) = length docs"
  by (induction docs) auto

lemma update_first_doc_keeps_generated:
  "i < length docs \<Longrightarrow> generated (docs ! i) \<Longrightarrow> hhmm t
     \<Longrightarrow> update_first_doc d t u docs ! i = docs ! i"
proof (induction docs arbitrary: i)
  case Nil
  then show ?case by simp
next
  case (Cons doc docs)
  show ?case
  proof (cases i)
    case 0
    with Cons.prems generated_no_hhmm [of doc t] show ?thesis by simp
  next
    case (Suc j)
    with Cons show ?thesis by simp
  qed
qed

lemma createBooking_keeps_generated:
  assumes "i < length (timeslots s)" and "generated (timeslots s ! i)"
  shows "length (timeslots (snd (createBooking e r s))) = length (timeslots s)
    \<and> timeslots (snd (createBooking e r s)) ! i = timeslots s ! i"
proof (cases "bookingSchema_validate e r")
  case (Inl f)
  then show ?thesis by (simp add: createBooking_def)
next
  case (Inr v)
  from selected_exists [OF Inr] obtain t where t: "js_or (v_timeSlot v) (v_time v) = Some t"
    by blast
  have h: "hhmm t" by (rule selected_hhmm [OF Inr t])
  have up: "update_first_doc d t u (timeslots s) ! i = timeslots s ! i" for d u
    by (rule update_first_doc_keeps_generated [OF assms h])
  show ?thesis
    using Inr t up
    by (auto simp: createBooking_def Let_def TimeSlot_updateOne_def
          dest!: timeslots_save_new
          split: sum.splits save_error.splits if_splits)
qed

lemma createBooking_generated_entry:
  assumes "bookingSchema_validate e r = Inr v"
    and "TimeSlot_findOne (utc_midnight (v_date v)) s = Some doc" and "generated doc"
  shows "fst (createBooking e r s) \<noteq> Rejected (Conflict Slot_board)"
proof -
  from selected_exists [OF assms(1)] obtain t where t: "js_or (v_timeSlot v) (v_time v) = Some t"
    by blast
  have h: "hhmm t" by (rule selected_hhmm [OF assms(1) t])
  have "find (\<lambda>sl. slot_time sl = t) (slots doc) = None"
    by (rule find_none_if_no_ex [OF generated_no_hhmm [OF assms(3) h]])
  with assms(2) have "\<not> slot_taken (utc_midnight (v_date v)) t s"
    by (simp add: slot_taken_def)
  with assms(1) t show ?thesis
    by (auto simp: createBooking_def Let_def split: sum.splits save_error.splits if_splits)
qed

lemma schema_valid_effective_time:
  assumes "schema_valid e b"
  shows "\<exists>t. effective_time b = Some t \<and> hhmm t"
proof (cases "truthy (timeSlot b)")
  case True
  with assms show ?thesis
    by (auto simp: schema_valid_def effective_time_def js_or_def truthy_def
          split: option.splits)
next
  case False
  with assms show ?thesis
    by (auto simp: schema_valid_def effective_time_def js_or_def split: option.splits)
qed

subsection \<open>C9: the default labels never match a booking time\<close>

text \<open>
  Claim C9. The labels of the default generator are \<^verbatim>\<open>9:00 AM\<close> to \<^verbatim>\<open>18:00 AM\<close>, and
  no string of the form HH:MM is one of them. So on an entry that carries these labels
  (whatever the flags of its rows) the search of \<^verbatim>\<open>createBooking\<close> for the row of the
  selected time finds nothing, a create request that consults such an entry is never
  rejected by the slot board check, and neither the update sent by a create nor an
  update of the slot board for a time of the form HH:MM changes such an entry. The
  releases sent by cancel, status update and delete carry the effective time of a
  stored booking, which is of the form HH:MM for every booking that passed the
  validators of the model.
\<close>

theorem default_labels_never_match_booking_times:
  "map slot_time default_slots =
     [''9:00 AM'', ''10:00 AM'', ''11:00 AM'', ''12:00 AM'', ''13:00 AM'',
      ''14:00 AM'', ''15:00 AM'', ''16:00 AM'', ''17:00 AM'', ''18:00 AM'']
   \<and> (hhmm t \<longrightarrow> t \<notin> set (map slot_time default_slots))
   \<and> (generated doc \<and> hhmm t \<longrightarrow> find (\<lambda>sl. slot_time sl = t) (slots doc) = None)
   \<and> (bookingSchema_validate e r = Inr v
        \<and> TimeSlot_findOne (utc_midnight (v_date v)) s = Some doc \<and> generated doc \<longrightarrow>
          fst (createBooking e r s) \<noteq> Rejected (Conflict Slot_board))
   \<and> (i < length (timeslots s) \<and> generated (timeslots s ! i) \<longrightarrow>
        timeslots (snd (createBooking e r s)) ! i = timeslots s ! i)
   \<and> (i < length (timeslots s) \<and> generated (timeslots s ! i) \<and> hhmm t \<longrightarrow>
        timeslots (TimeSlot_updateOne d (Some t) u s) ! i = timeslots s ! i)
   \<and> (schema_valid e b \<longrightarrow> (\<exists>t'. effective_time b = Some t' \<and> hhmm t'))"
proof -
  have "t \<notin> set (map slot_time default_slots)" if "hhmm t"
    using hhmm_length [OF that] unfolding default_labels by auto
  moreover have "find (\<lambda>sl. slot_time sl = t) (slots doc) = None" if "generated doc" "hhmm t"
    by (rule find_none_if_no_ex [OF generated_no_hhmm [OF that]])
  moreover have "timeslots (TimeSlot_updateOne d (Some t) u s) ! i = timeslots s ! i"
    if "i < length (timeslots s)" "generated (timeslots s ! i)" "hhmm t"
    using update_first_doc_keeps_generated [OF that] by (simp add: TimeSlot_updateOne_def)
  ultimately show ?thesis
    using default_labels createBooking_generated_entry createBooking_keeps_generated
      schema_valid_effective_time
    by blast
qed

theorem default_labels_never_match_booking_times_witness:
  "hhmm ''14:00''
   \<and> generated (hd (timeslots board_db))
   \<and> bookingSchema_validate utc_server asha_day6 = Inr asha_value
   \<and> TimeSlot_findOne (utc_midnight (v_date asha_value)) board_db = Some (hd (timeslots board_db))
   \<and> (0::nat) < length (timeslots board_db)
   \<and> ''14:00'' \<notin> set (map slot_time default_slots)
   \<and> find (\<lambda>sl. slot_time sl = ''14:00'') (slots (hd (timeslots board_db))) = None
   \<and> fst (createBooking utc_server asha_day6 board_db) \<noteq> Rejected (Conflict Slot_board)
   \<and> timeslots (snd (createBooking utc_server asha_day6 board_db)) ! 0 = timeslots board_db ! 0
   \<and> timeslots (TimeSlot_updateOne 518400000 (Some ''14:00'') Mark_available board_db) ! 0
       = timeslots board_db ! 0
   \<and> schema_valid utc_server asha_booking
   \<and> effective_time asha_booking = Some ''14:00''"
proof -
  have h1: "hhmm ''14:00''"
    by code_simp
  have h2: "generated (hd (timeslots board_db))"
    by code_simp
  have h3: "bookingSchema_validate utc_server asha_day6 = Inr asha_value"
    by code_simp
  have h4: "TimeSlot_findOne (utc_midnight (v_date asha_value)) board_db =
      Some (hd (timeslots board_db))"
    by code_simp
  have h5: "(0::nat) < length (timeslots board_db)"
    by code_simp
  have h6: "timeslots board_db ! 0 = hd (timeslots board_db)"
    by code_simp
  have h7: "schema_valid utc_server asha_booking"
    by code_simp
  have h8: "effective_time asha_booking = Some ''14:00''"
    by code_simp
  show ?thesis
    using h1 h2 h3 h4 h5 h6 h7 h8
      default_labels_never_match_booking_times
        [of "''14:00''" "hd (timeslots board_db)" utc_server asha_day6 asha_value board_db 0
          518400000 Mark_available asha_booking]
    by simp
qed

subsection \<open>C6: delete releases the slot, then removes the booking\<close>

lemma findById_D: "findById i s = Some b \<Longrightarrow> b \<in> set (bookings s) \<and> bid b = i"
  by (auto simp: findById_def find_Some_iff)

lemma apply_set_available:
  "apply_set Mark_available = (\<lambda>sl. sl\<lparr>available := True, bookedBy := None\<rparr>)"
  by (rule ext) (simp add: apply_set_def)

text \<open>
  Claim C6. For a well-formed id of a stored booking, whatever its status,
  \<^verbatim>\<open>deleteBooking\<close> answers success, its two effects are, in this order, the release
  of the slot board row for the date and effective time of the booking and the removal
  of the booking, after which the id is not found, and the row the release addresses,
  if there is one, is afterwards available with no back-reference.
\<close>

theorem deleteBooking_releases_before_removal:
  assumes "parse_oid idstr = Some i" and "findById i s = Some b"
  shows "fst (deleteBooking idstr s) = Deleted
    \<and> trace (snd (deleteBooking idstr s)) =
        trace s @ [Board_update (date b) (effective_time b) Mark_available, Ledger_delete i]
    \<and> findById i (snd (deleteBooking idstr s)) = None
    \<and> (\<forall>t. effective_time b = Some t \<longrightarrow>
          slot_at (date b) t (timeslots (snd (deleteBooking idstr s))) =
            map_option (\<lambda>sl. sl\<lparr>available := True, bookedBy := None\<rparr>)
              (slot_at (date b) t (timeslots s)))"
  using assms
  by (auto simp: deleteBooking_def findByIdAndDelete_def TimeSlot_updateOne_def findById_def
        slot_at_update_first_doc apply_set_available find_None_iff)

theorem deleteBooking_releases_before_removal_witness:
  "parse_oid ''000000000000000000000001'' = Some 1
   \<and> findById 1 hand_board_db = Some (hd (bookings hand_board_db))
   \<and> status (hd (bookings hand_board_db)) = Completed
   \<and> fst (deleteBooking ''000000000000000000000001'' hand_board_db) = Deleted
   \<and> slot_at 518400000 ''14:00'' (timeslots hand_board_db) =
       Some \<lparr>slot_time = ''14:00'', available = False, bookedBy = Some 1\<rparr>
   \<and> slot_at 518400000 ''14:00''
        (timeslots (snd (deleteBooking ''000000000000000000000001'' hand_board_db))) =
       Some \<lparr>slot_time = ''14:00'', available = True, bookedBy = None\<rparr>"
proof -
  have h1: "parse_oid ''000000000000000000000001'' = Some 1"
    by code_simp
  have h2: "findById 1 hand_board_db = Some (hd (bookings hand_board_db))"
    by code_simp
  have h3: "effective_time (hd (bookings hand_board_db)) = Some ''14:00''"
    by code_simp
  have h4: "date (hd (bookings hand_board_db)) = 518400000"
    by code_simp
  have h5: "slot_at 518400000 ''14:00'' (timeslots hand_board_db) =
       Some \<lparr>slot_time = ''14:00'', available = False, bookedBy = Some 1\<rparr>"
    by code_simp
  have h6: "status (hd (bookings hand_board_db)) = Completed"
    by code_simp
  show ?thesis
    using deleteBooking_releases_before_removal [OF h1 h2] h1 h2 h3 h4 h5 h6
    by simp
qed

subsection \<open>Saving, creating and updating a booking\<close>

lemma pre_save_both: "truthy (time b) \<Longrightarrow> truthy (timeSlot b) \<Longrightarrow> pre_save b = b"
  by (simp add: pre_save_def)

lemma schema_valid_time: "schema_valid e b \<Longrightarrow> truthy (time b)"
  by (auto simp: schema_valid_def truthy_def split: option.splits)

lemma pre_save_truthy:
  "truthy (time b) \<Longrightarrow> truthy (time (pre_save b)) \<and> truthy (timeSlot (pre_save b))"
  by (simp add: pre_save_def)

lemma find_map_replace:
  "find (\<lambda>x. bid x = i) xs = Some b0 \<Longrightarrow> bid b1 = i
     \<Longrightarrow> find (\<lambda>x. bid x = i) (map (\<lambda>x. if bid x = i then b1 else x) xs) = Some b1"
  by (induction xs) (auto split: if_splits)

lemma save_new_D:
  assumes "save_new e doc s = Inr (b, s')"
  shows "schema_valid e doc" and "b = pre_save doc"
    and "bookings s' = bookings s @ [b]"
    and "\<not> list_ex (\<lambda>x. date x = date b \<and> time x = time b) (bookings s)"
    and "trace s' = trace s @ [Ledger_insert (bid b)]"
    and "timeslots s' = timeslots s" and "next_id s' = next_id s"
  using assms by (auto simp: save_new_def Let_def split: if_splits)

lemma bid_pre_save [simp]: "bid (pre_save b) = bid b"
  by (simp add: pre_save_def)

lemma save_existing_D:
  assumes "save_existing e doc s = Inr (b, s')"
  shows "schema_valid e doc" and "b = pre_save doc"
    and "trace s' = trace s @ (if findById (bid b) s = Some b then [] else [Ledger_save (bid b)])"
    and "timeslots s' = timeslots s" and "next_id s' = next_id s"
  using assms by (auto simp: save_existing_def Let_def split: if_splits)

lemma save_existing_stored:
  assumes "save_existing e doc s = Inr (b, s')" and "findById (bid doc) s = Some b0"
  shows "findById (bid doc) s' = Some b"
proof (cases "findById (bid (pre_save doc)) s = Some (pre_save doc)")
  case True
  with assms(1) show ?thesis
    by (auto simp: save_existing_def Let_def split: if_splits)
next
  case False
  with assms(1) have b: "b = pre_save doc"
    and s': "bookings s' = map (\<lambda>x. if bid x = bid doc then b else x) (bookings s)"
    by (auto simp: save_existing_def Let_def split: if_splits)
  from assms(2) have "find (\<lambda>x. bid x = bid doc) (bookings s) = Some b0"
    by (simp add: findById_def)
  from find_map_replace [OF this, of b] b s' show ?thesis
    by (simp add: findById_def)
qed

lemma status_pre_save [simp]: "status (pre_save b) = status b"
  by (simp add: pre_save_def)

lemma date_pre_save [simp]: "date (pre_save b) = date b"
  by (simp add: pre_save_def)

lemma phone_pre_save [simp]: "phone (pre_save b) = phone b"
  by (simp add: pre_save_def)

lemma bookings_TimeSlot_updateOne [simp]: "bookings (TimeSlot_updateOne d t u s) = bookings s"
  by (simp add: TimeSlot_updateOne_def)

lemma bookings_send_whatsapp [simp]: "bookings (send_whatsapp e k b s) = bookings s"
  by (simp add: send_whatsapp_def)

lemma createBooking_Created_D:
  assumes "createBooking e r s = (Created b, s')"
  shows "\<exists>v t. bookingSchema_validate e r = Inr v
      \<and> js_or (v_timeSlot v) (v_time v) = Some t \<and> t \<noteq> []
      \<and> date b = utc_midnight (v_date v) \<and> time b = Some t \<and> timeSlot b = Some t
      \<and> status b = (case v_status v of None \<Rightarrow> Confirmed | Some st \<Rightarrow> st)
      \<and> bid b = next_id s
      \<and> bookings s' = bookings s @ [b]"
proof -
  from assms obtain v where v: "bookingSchema_validate e r = Inr v"
    by (auto simp: createBooking_def split: sum.splits)
  from assms v obtain t where t: "js_or (v_timeSlot v) (v_time v) = Some t" "t \<noteq> []"
    by (auto simp: createBooking_def split: option.splits if_splits)
  define doc where "doc = \<lparr>bid = next_id s, name = trim (v_name v), phone = v_phone v,
      service = trim (v_service v), date = utc_midnight (v_date v),
      time = Some t, timeSlot = Some t,
      status = (case v_status v of None \<Rightarrow> Confirmed | Some st \<Rightarrow> st),
      notes' = (case v_notes v of None \<Rightarrow> None
                | Some n \<Rightarrow> if trim n = [] then None else Some (trim n))\<rparr>"
  have ps: "pre_save doc = doc"
    using t(2) by (simp add: pre_save_def doc_def truthy_def)
  from assms v t obtain s2 where sv: "save_new e doc (s\<lparr>next_id := Suc (next_id s)\<rparr>) = Inr (b, s2)"
    and s': "s' = send_whatsapp e Confirmation b
        (TimeSlot_updateOne (utc_midnight (v_date v)) (Some t) (Mark_unavailable (bid b)) s2)"
    by (auto simp: createBooking_def Let_def doc_def
          split: sum.splits save_error.splits if_splits)
  from save_new_D(2,3) [OF sv] ps have "b = doc" "bookings s2 = bookings s @ [b]"
    by simp_all
  with v t s' show ?thesis
    by (auto simp: doc_def)
qed

lemma find_not_None: "x \<in> set xs \<Longrightarrow> P x \<Longrightarrow> find P xs \<noteq> None"
  by (auto simp: find_None_iff)

lemma create_conflict_when_occupied:
  assumes v: "bookingSchema_validate e r = Inr v"
    and t: "js_or (v_timeSlot v) (v_time v) = Some t"
    and b: "b \<in> set (bookings s)" "date b = utc_midnight (v_date v)"
      "time b = Some t \<or> timeSlot b = Some t" "status b \<noteq> Cancelled"
  shows "createBooking e r s =
    (Rejected (Conflict (if slot_taken (utc_midnight (v_date v)) t s
       then Slot_board else Ledger_check)), s)"
proof -
  have ne: "t \<noteq> []"
    using hhmm_nonempty [OF selected_hhmm [OF v t]] .
  have ex: "existingBooking (utc_midnight (v_date v)) t s \<noteq> None"
    unfolding existingBooking_def using b by (intro find_not_None [of b]) auto
  show ?thesis
    using v t ne ex validated_not_past [OF v]
    by (simp add: createBooking_def Let_def)
qed

lemma trace_send_whatsapp:
  "trace (send_whatsapp e k b s) = trace s @ (if twilio_ready e then [WhatsApp k (phone b)] else [])"
  by (simp add: send_whatsapp_def)

lemma trace_TimeSlot_updateOne [simp]:
  "trace (TimeSlot_updateOne d t u s) = trace s @ [Board_update d t u]"
  by (simp add: TimeSlot_updateOne_def)

lemma timeslots_TimeSlot_updateOne:
  "timeslots (TimeSlot_updateOne d t u s) =
     (case t of None \<Rightarrow> timeslots s | Some l \<Rightarrow> update_first_doc d l u (timeslots s))"
  by (simp add: TimeSlot_updateOne_def)

lemma updateBooking_Updated_D:
  assumes "updateBooking e idstr u s = (Updated b1, s1)"
  shows "\<exists>i st n b0.
      parse_oid idstr = Some i
      \<and> updateBookingSchema_validate u = Inr (st, n)
      \<and> findById i s = Some b0
      \<and> schema_valid e (case n of None \<Rightarrow> b0\<lparr>status := st\<rparr>
                          | Some x \<Rightarrow> b0\<lparr>status := st, notes' := Some x\<rparr>)
      \<and> b1 = pre_save (case n of None \<Rightarrow> b0\<lparr>status := st\<rparr>
                          | Some x \<Rightarrow> b0\<lparr>status := st, notes' := Some x\<rparr>)
      \<and> findById i s1 = Some b1
      \<and> trace s1 = trace s @ (if b0 = b1 then [] else [Ledger_save i])
          @ (if st = Cancelled \<and> status b0 \<noteq> Cancelled
             then [Board_update (date b0) (effective_time b1) Mark_available] else [])
          @ (if twilio_ready e \<and> st \<noteq> status b0 \<and> st \<noteq> Pending
             then [WhatsApp (case st of Cancelled \<Rightarrow> Cancellation
                              | Completed \<Rightarrow> Completion | _ \<Rightarrow> Confirmation) (phone b0)]
             else [])"
proof -
  from assms obtain i where i: "parse_oid idstr = Some i"
    by (auto simp: updateBooking_def split: option.splits)
  from assms i obtain st n where v: "updateBookingSchema_validate u = Inr (st, n)"
    by (auto simp: updateBooking_def split: sum.splits)
  from assms i v obtain b0 where b0: "findById i s = Some b0"
    by (auto simp: updateBooking_def split: option.splits)
  define doc where "doc = (case n of None \<Rightarrow> b0\<lparr>status := st\<rparr>
                          | Some x \<Rightarrow> b0\<lparr>status := st, notes' := Some x\<rparr>)"
  have doc': "(case n of None \<Rightarrow> b0\<lparr>status := st\<rparr> | Some x \<Rightarrow> b0\<lparr>status := st\<rparr>\<lparr>notes' := Some x\<rparr>) = doc"
    by (simp add: doc_def split: option.splits)
  have bd: "bid doc = i" "date doc = date b0" "phone doc = phone b0"
    using findById_D [OF b0] by (simp_all add: doc_def split: option.splits)
  from assms i v b0 obtain s' where sv: "save_existing e doc s = Inr (b1, s')"
    by (auto simp: updateBooking_def Let_def doc' split: sum.splits)
  note D = save_existing_D [OF sv]
  have b1: "bid b1 = i" "date b1 = date b0" "phone b1 = phone b0"
    using D(2) bd by simp_all
  have s1: "s1 =
      (let s2 = (if st = Cancelled \<and> status b0 \<noteq> Cancelled
                then send_whatsapp e Cancellation b1
                       (TimeSlot_updateOne (date b1) (effective_time b1) Mark_available s')
                else s');
          s3 = (if st = Confirmed \<and> status b0 \<noteq> Confirmed
                then send_whatsapp e Confirmation b1 s2 else s2)
       in (if st = Completed \<and> status b0 \<noteq> Completed
                then send_whatsapp e Completion b1 s3 else s3))"
    using assms i v b0 sv by (simp add: updateBooking_def Let_def doc')
  have tr: "trace s1 = trace s @ (if b0 = b1 then [] else [Ledger_save i])
          @ (if st = Cancelled \<and> status b0 \<noteq> Cancelled
             then [Board_update (date b0) (effective_time b1) Mark_available] else [])
          @ (if twilio_ready e \<and> st \<noteq> status b0 \<and> st \<noteq> Pending
             then [WhatsApp (case st of Cancelled \<Rightarrow> Cancellation
                              | Completed \<Rightarrow> Completion | _ \<Rightarrow> Confirmation) (phone b0)]
             else [])"
    unfolding s1 using D(3) b1 b0
    by (cases st; cases "status b0") (simp_all add: Let_def trace_send_whatsapp)
  have "findById i s' = Some b1"
    using save_existing_stored [OF sv] b0 bd(1) by simp
  then have bk: "findById i s1 = Some b1"
    unfolding s1 by (simp add: Let_def findById_def)
  show ?thesis
    using i v b0 D(1,2) tr bk unfolding doc_def by blast
qed


lemma notifications_append [simp]:
  "notifications (xs @ ys) = notifications xs @ notifications ys"
  by (induction xs rule: notifications.induct) simp_all

lemma board_updates_append [simp]:
  "board_updates (xs @ ys) = board_updates xs @ board_updates ys"
  by (induction xs rule: board_updates.induct) simp_all

lemma pair_fst_snd: "fst p = a \<Longrightarrow> snd p = b \<Longrightarrow> p = (a, b)"
  by auto

subsection \<open>C1: a second create at an occupied date and time is a conflict\<close>

text \<open>
  Claim C1. Let a create request have succeeded with booking \<open>b\<close>, and let \<open>s\<close> be any
  later database in which that booking is still stored with its date and time and a
  status other than cancelled. A second create request that passes validation and
  selects the same date (at day granularity) and the same time is answered 409
  Conflict, and the database is left as it is: nothing is inserted. The answer comes
  from the ledger check, or from the slot board check that runs before it when the slot
  board of that date holds a row of that time marked unavailable.
\<close>

theorem second_create_is_conflict:
  assumes first: "createBooking e1 r1 s0 = (Created b, s1)"
    and still: "b' \<in> set (bookings s)" "bid b' = bid b" "date b' = date b"
      "time b' = time b" "status b' \<noteq> Cancelled"
    and second: "bookingSchema_validate e2 r2 = Inr v2"
      "utc_midnight (v_date v2) = date b" "js_or (v_timeSlot v2) (v_time v2) = time b"
  shows "b \<in> set (bookings s1)
    \<and> fst (createBooking e2 r2 s) \<in>
         {Rejected (Conflict Ledger_check), Rejected (Conflict Slot_board)}
    \<and> (fst (createBooking e2 r2 s) = Rejected (Conflict Slot_board)
         \<longleftrightarrow> (\<exists>t. time b = Some t \<and> slot_taken (date b) t s))
    \<and> http_status (fst (createBooking e2 r2 s)) = 409
    \<and> snd (createBooking e2 r2 s) = s"
proof -
  from createBooking_Created_D [OF first] obtain t where
    t: "time b = Some t" and in1: "bookings s1 = bookings s0 @ [b]"
    by blast
  have t2: "js_or (v_timeSlot v2) (v_time v2) = Some t"
    using second(3) t by simp
  have "createBooking e2 r2 s =
    (Rejected (Conflict (if slot_taken (utc_midnight (v_date v2)) t s
       then Slot_board else Ledger_check)), s)"
    using still second(2) t
    by (intro create_conflict_when_occupied [OF second(1) t2, of b']) simp_all
  with in1 t second(2) show ?thesis
    by auto
qed

theorem second_create_is_conflict_witness:
  "createBooking utc_server asha_day6 empty_db = (Created asha_booking, booked_db)
   \<and> asha_booking \<in> set (bookings booked_db)
   \<and> status asha_booking \<noteq> Cancelled
   \<and> bookingSchema_validate utc_server ravi_day6 = Inr ravi_value
   \<and> utc_midnight (v_date ravi_value) = date asha_booking
   \<and> js_or (v_timeSlot ravi_value) (v_time ravi_value) = time asha_booking
   \<and> fst (createBooking utc_server ravi_day6 booked_db) = Rejected (Conflict Ledger_check)
   \<and> http_status (fst (createBooking utc_server ravi_day6 booked_db)) = 409
   \<and> snd (createBooking utc_server ravi_day6 booked_db) = booked_db"
proof -
  have h0: "fst (createBooking utc_server asha_day6 empty_db) = Created asha_booking"
    by code_simp
  have h1: "createBooking utc_server asha_day6 empty_db = (Created asha_booking, booked_db)"
    by (rule pair_fst_snd [OF h0]) (simp add: booked_db_def)
  have h2: "asha_booking \<in> set (bookings booked_db)"
    by code_simp
  have h3: "status asha_booking \<noteq> Cancelled"
    by code_simp
  have h4: "bookingSchema_validate utc_server ravi_day6 = Inr ravi_value"
    by code_simp
  have h5: "utc_midnight (v_date ravi_value) = date asha_booking"
    by code_simp
  have h6: "js_or (v_timeSlot ravi_value) (v_time ravi_value) = time asha_booking"
    by code_simp
  have h7: "\<not> slot_taken (date asha_booking) ''14:00'' booked_db"
    by code_simp
  have h8: "time asha_booking = Some ''14:00''"
    by code_simp
  show ?thesis
    using second_create_is_conflict [OF h1 h2 refl refl refl h3 h4 h5 h6] h1 h2 h3 h4 h5 h6 h7 h8
    by auto
qed

subsection \<open>C3: time and timeSlot on a write\<close>

text \<open>
  What holds of every write. The hook copies \<open>time\<close> to an absent \<open>timeSlot\<close> and leaves
  a document with both fields as it is. Every save that succeeds, of a new or of a
  loaded document, returns the document the hook returns, that document is the stored
  one, and both of its fields are non-empty. After a successful create both fields are
  the selected time, which is the one supplied value when only one was supplied; after
  a successful update both fields of the stored booking are non-empty.
\<close>

lemma saves_store_both_time_fields:
  "(truthy (time b) \<and> \<not> truthy (timeSlot b) \<longrightarrow> pre_save b = b\<lparr>timeSlot := time b\<rparr>)
   \<and> (truthy (time b) \<and> truthy (timeSlot b) \<longrightarrow> pre_save b = b)
   \<and> (save_new e doc s = Inr (b1, s1) \<longrightarrow>
        b1 = pre_save doc \<and> b1 \<in> set (bookings s1)
        \<and> truthy (time b1) \<and> truthy (timeSlot b1))
   \<and> (save_existing e doc s = Inr (b1, s1) \<and> findById (bid doc) s \<noteq> None \<longrightarrow>
        b1 = pre_save doc \<and> findById (bid doc) s1 = Some b1
        \<and> truthy (time b1) \<and> truthy (timeSlot b1))
   \<and> (createBooking e r s = (Created b1, s1) \<longrightarrow>
        b1 \<in> set (bookings s1) \<and> truthy (time b1)
        \<and> time b1 = js_or (req_timeSlot r) (req_time r)
        \<and> timeSlot b1 = js_or (req_timeSlot r) (req_time r))
   \<and> (updateBooking e idstr u s = (Updated b1, s1) \<longrightarrow>
        b1 \<in> set (bookings s1) \<and> truthy (time b1) \<and> truthy (timeSlot b1))"
proof -
  have sync: "truthy (time (pre_save x)) \<and> truthy (timeSlot (pre_save x))"
    if "schema_valid e x" for x
    by (rule pre_save_truthy [OF schema_valid_time [OF that]])
  have new: "b1 = pre_save doc \<and> b1 \<in> set (bookings s1)
        \<and> truthy (time b1) \<and> truthy (timeSlot b1)"
    if "save_new e doc s = Inr (b1, s1)"
    using save_new_D(1,2,3) [OF that] sync [of doc] by simp
  have old: "b1 = pre_save doc \<and> findById (bid doc) s1 = Some b1
        \<and> truthy (time b1) \<and> truthy (timeSlot b1)"
    if sv: "save_existing e doc s = Inr (b1, s1)" and ex: "findById (bid doc) s \<noteq> None"
  proof -
    from ex obtain b0 where "findById (bid doc) s = Some b0"
      by auto
    from save_existing_stored [OF sv this]
    have "findById (bid doc) s1 = Some b1" .
    with save_existing_D(1,2) [OF sv] sync [of doc] show ?thesis by simp
  qed
  have cr: "b1 \<in> set (bookings s1) \<and> truthy (time b1)
        \<and> time b1 = js_or (req_timeSlot r) (req_time r)
        \<and> timeSlot b1 = js_or (req_timeSlot r) (req_time r)"
    if "createBooking e r s = (Created b1, s1)"
  proof -
    from createBooking_Created_D [OF that] obtain v t where
      v: "bookingSchema_validate e r = Inr v"
      and t: "js_or (v_timeSlot v) (v_time v) = Some t" "t \<noteq> []"
        "time b1 = Some t" "timeSlot b1 = Some t" "bookings s1 = bookings s @ [b1]"
      by blast
    with validate_Inr(2,3) [OF v] show ?thesis
      by (simp add: truthy_def)
  qed
  have up: "b1 \<in> set (bookings s1) \<and> truthy (time b1) \<and> truthy (timeSlot b1)"
    if "updateBooking e idstr u s = (Updated b1, s1)"
  proof -
    from updateBooking_Updated_D [OF that] obtain i st n b0 where
      d: "schema_valid e (case n of None \<Rightarrow> b0\<lparr>status := st\<rparr>
                          | Some x \<Rightarrow> b0\<lparr>status := st, notes' := Some x\<rparr>)"
        "b1 = pre_save (case n of None \<Rightarrow> b0\<lparr>status := st\<rparr>
                          | Some x \<Rightarrow> b0\<lparr>status := st, notes' := Some x\<rparr>)"
        "findById i s1 = Some b1"
      by blast
    from findById_D [OF d(3)] have "b1 \<in> set (bookings s1)"
      by simp
    with sync [OF d(1)] d(2) show ?thesis by simp
  qed
  have p1: "pre_save b = b\<lparr>timeSlot := time b\<rparr>"
    if "truthy (time b)" "\<not> truthy (timeSlot b)"
    using that by (simp add: pre_save_def)
  have p3: "pre_save b = b" if "truthy (time b)" "truthy (timeSlot b)"
    using that by (simp add: pre_save_def)
  show ?thesis
    using p1 p3 new old cr up by blast
qed

text \<open>
  A document without \<open>time\<close> is never written: \<open>time\<close> is required, and the validation
  runs before the hook that would copy \<open>timeSlot\<close> into it.
\<close>

lemma save_refuses_document_without_time:
  assumes "\<not> truthy (time doc)"
  shows "save_new e doc s = Inl Validation_error"
    and "save_existing e doc s = Inl Validation_error"
proof -
  have "\<not> schema_valid e doc"
    using assms schema_valid_time by blast
  then show "save_new e doc s = Inl Validation_error"
    and "save_existing e doc s = Inl Validation_error"
    by (simp_all add: save_new_def save_existing_def)
qed


subsection \<open>C7: notifications of a status update\<close>

text \<open>
  The claim as stated fails where the notifier is not configured: an update from
  pending to completed is persisted and no message is attempted.
\<close>

theorem updateBooking_silent_when_unconfigured:
  "findById 1 pending_db = Some ravi_pending
   \<and> status ravi_pending = Pending
   \<and> fst (updateBooking quiet_server id1 to_completed pending_db) =
       Updated (ravi_pending\<lparr>status := Completed\<rparr>)
   \<and> notifications (trace (snd (updateBooking quiet_server id1 to_completed pending_db))) = []"
  by code_simp

text \<open>
  Claim C7, amended. When a status update succeeds, the new status is stored; no
  message is attempted when the new status equals the old one, when it is pending, or
  when the notifier is not configured; otherwise exactly one message of the kind of
  the new status (cancellation, confirmation, completion) is attempted. The slot board
  is updated, to release the row of the booking, exactly when the new status is
  cancelled and the old one is not.
\<close>

theorem updateBooking_notifies_on_transition:
  assumes "updateBooking e idstr u s = (Updated b1, s1)"
    and "parse_oid idstr = Some i" and "findById i s = Some b0"
    and "updateBookingSchema_validate u = Inr (st, n)"
  shows "status b1 = st \<and> findById i s1 = Some b1
    \<and> notifications (trace s1) = notifications (trace s)
        @ (if st = status b0 \<or> st = Pending \<or> \<not> twilio_ready e then []
           else [(case st of Cancelled \<Rightarrow> Cancellation | Completed \<Rightarrow> Completion
                  | _ \<Rightarrow> Confirmation, phone b0)])
    \<and> board_updates (trace s1) = board_updates (trace s)
        @ (if st = Cancelled \<and> status b0 \<noteq> Cancelled
           then [(date b0, effective_time b1, Mark_available)] else [])"
proof -
  from updateBooking_Updated_D [OF assms(1)] assms(2-4)
  have b1: "b1 = pre_save (case n of None \<Rightarrow> b0\<lparr>status := st\<rparr>
                          | Some x \<Rightarrow> b0\<lparr>status := st, notes' := Some x\<rparr>)"
    and fd: "findById i s1 = Some b1"
    and tr: "trace s1 = trace s @ (if b0 = b1 then [] else [Ledger_save i])
          @ (if st = Cancelled \<and> status b0 \<noteq> Cancelled
             then [Board_update (date b0) (effective_time b1) Mark_available] else [])
          @ (if twilio_ready e \<and> st \<noteq> status b0 \<and> st \<noteq> Pending
             then [WhatsApp (case st of Cancelled \<Rightarrow> Cancellation
                              | Completed \<Rightarrow> Completion | _ \<Rightarrow> Confirmation) (phone b0)]
             else [])"
    by auto
  have st: "status b1 = st"
    using b1 by (simp split: option.splits)
  show ?thesis
    using st fd by (simp add: tr)
qed

theorem updateBooking_notifies_on_transition_witness:
  "updateBooking utc_server id1 to_completed pending_db =
     (Updated (ravi_pending\<lparr>status := Completed\<rparr>),
      snd (updateBooking utc_server id1 to_completed pending_db))
   \<and> parse_oid id1 = Some 1
   \<and> findById 1 pending_db = Some ravi_pending
   \<and> updateBookingSchema_validate to_completed = Inr (Completed, None)
   \<and> findById 1 (snd (updateBooking utc_server id1 to_completed pending_db)) =
       Some (ravi_pending\<lparr>status := Completed\<rparr>)
   \<and> notifications (trace (snd (updateBooking utc_server id1 to_completed pending_db))) =
       [(Completion, ''9123456780'')]
   \<and> board_updates (trace (snd (updateBooking utc_server id1 to_completed pending_db))) = []"
proof -
  have h0: "fst (updateBooking utc_server id1 to_completed pending_db) =
      Updated (ravi_pending\<lparr>status := Completed\<rparr>)"
    by code_simp
  have h1: "updateBooking utc_server id1 to_completed pending_db =
     (Updated (ravi_pending\<lparr>status := Completed\<rparr>),
      snd (updateBooking utc_server id1 to_completed pending_db))"
    by (rule pair_fst_snd [OF h0 refl])
  have h2: "parse_oid id1 = Some 1"
    by code_simp
  have h3: "findById 1 pending_db = Some ravi_pending"
    by code_simp
  have h4: "updateBookingSchema_validate to_completed = Inr (Completed, None)"
    by code_simp
  have h5: "status ravi_pending = Pending" "phone ravi_pending = ''9123456780''"
    "trace pending_db = []" "twilio_ready utc_server"
    by code_simp+
  show ?thesis
    using updateBooking_notifies_on_transition [OF h1 h2 h3 h4] h1 h2 h3 h4 h5
    by simp
qed

subsection \<open>C2: a cancelled booking keeps its key in the unique index\<close>

text \<open>
  The unique index is on date and time alone, so a stored booking of any status, a
  cancelled one included, makes every validated create request for its date and time
  fail, and nothing is inserted.
\<close>

lemma create_refused_when_key_stored:
  assumes v: "bookingSchema_validate e r = Inr v"
    and t: "js_or (v_timeSlot v) (v_time v) = Some t"
    and b: "b \<in> set (bookings s)" "date b = utc_midnight (v_date v)" "time b = Some t"
  shows "\<exists>err. fst (createBooking e r s) = Rejected err
    \<and> bookings (snd (createBooking e r s)) = bookings s"
proof -
  have ne: "t \<noteq> []"
    using hhmm_nonempty [OF selected_hhmm [OF v t]] .
  have dup: "list_ex (\<lambda>x. date x = utc_midnight (v_date v) \<and> time x = Some t) (bookings s)"
    using b by (auto simp: list_ex_iff)
  show ?thesis
    using v t ne dup
    by (auto simp: createBooking_def Let_def save_new_def pre_save_def truthy_def
          split: sum.splits save_error.splits if_splits)
qed

text \<open>
  Claim C2 fails on the code. A booking is created for day 6 at 14:00 and cancelled.
  A second valid request for day 6 at 14:00 passes the ledger check, which skips
  cancelled bookings, and is then refused by the unique index: the answer is 409 and
  nothing is inserted.
\<close>

theorem cancelled_booking_still_blocks_create:
  "fst (createBooking utc_server asha_day6 empty_db) = Created asha_booking
   \<and> fst (cancelBooking utc_server id1 booked_db) = Cancel_ok
   \<and> map status (bookings cancelled_db) = [Cancelled]
   \<and> bookingSchema_validate utc_server ravi_day6 = Inr ravi_value
   \<and> existingBooking 518400000 ''14:00'' cancelled_db = None
   \<and> fst (createBooking utc_server ravi_day6 cancelled_db) = Rejected (Conflict Unique_index)
   \<and> http_status (fst (createBooking utc_server ravi_day6 cancelled_db)) = 409
   \<and> bookings (snd (createBooking utc_server ravi_day6 cancelled_db)) = bookings cancelled_db"
  by code_simp

subsection \<open>C5: a request dated today is refused by the request validation\<close>

text \<open>
  Claim C5 fails on the code. At 10:00 UTC of day 5 a request dated day 5, 00:00 UTC,
  is a request for the current day, and \<^verbatim>\<open>Joi.date().min('now')\<close> refuses it because
  the instant is before the clock; the same request dated with the instant of the clock
  is accepted and stored under day 5. After validation the day comparison of the
  handler can no longer fail (lemma \<open>validated_not_past\<close>).
\<close>

theorem create_today_refused_by_date_min_now:
  "utc_midnight 432000000 = utc_midnight (now utc_server)
   \<and> fst (createBooking utc_server asha_day5 empty_db) = Rejected (Validation F_date)
   \<and> fst (createBooking utc_server (asha_day5\<lparr>req_date := Some 468000000\<rparr>) empty_db) =
       Created (asha_booking\<lparr>date := 432000000\<rparr>)"
  by code_simp

subsection \<open>C4: cancel and the date validator of the model\<close>

text \<open>
  On a server whose local time is UTC, and for a stored booking that passed the
  validators of the model when it was written, \<^verbatim>\<open>cancelBooking\<close> answers as the claim
  says: not found, already cancelled, past date, in this order, and success otherwise,
  with the stored status set to cancelled.
\<close>

lemma utc_midnight_le: "utc_midnight d \<le> d"
  by (simp add: utc_midnight_def)

lemma schema_valid_cancel_utc:
  assumes "schema_valid e0 b" and "tz_offset e = 0"
    and "\<not> utc_midnight (date b) < utc_midnight (now e)"
  shows "schema_valid e (b\<lparr>status := Cancelled\<rparr>)"
  using assms utc_midnight_le [of "date b"]
  by (simp add: schema_valid_def local_midnight_def)

lemma cancelBooking_utc_server:
  assumes "parse_oid idstr = Some i" and "tz_offset e = 0"
    and "\<And>b. findById i s = Some b \<Longrightarrow> schema_valid e0 b"
  shows "fst (cancelBooking e idstr s) =
     (case findById i s of None \<Rightarrow> Rejected Not_found
      | Some b \<Rightarrow>
         if status b = Cancelled then Rejected Already_cancelled
         else if utc_midnight (date b) < utc_midnight (now e) then Rejected Past_cancel
         else Cancel_ok)"
    and "fst (cancelBooking e idstr s) = Cancel_ok \<Longrightarrow>
      \<exists>b. findById i (snd (cancelBooking e idstr s)) = Some b \<and> status b = Cancelled"
proof -
  show "fst (cancelBooking e idstr s) =
     (case findById i s of None \<Rightarrow> Rejected Not_found
      | Some b \<Rightarrow>
         if status b = Cancelled then Rejected Already_cancelled
         else if utc_midnight (date b) < utc_midnight (now e) then Rejected Past_cancel
         else Cancel_ok)"
  proof (cases "findById i s")
    case None
    with assms(1) show ?thesis by (simp add: cancelBooking_def)
  next
    case (Some b)
    show ?thesis
    proof (cases "status b = Cancelled \<or> utc_midnight (date b) < utc_midnight (now e)")
      case True
      with assms(1) Some show ?thesis by (auto simp: cancelBooking_def)
    next
      case False
      then have "schema_valid e (b\<lparr>status := Cancelled\<rparr>)"
        using schema_valid_cancel_utc [OF assms(3) [OF Some] assms(2)] by simp
      with assms(1) Some False show ?thesis
        by (simp add: cancelBooking_def save_existing_def Let_def)
    qed
  qed
  show "\<exists>b. findById i (snd (cancelBooking e idstr s)) = Some b \<and> status b = Cancelled"
    if ok: "fst (cancelBooking e idstr s) = Cancel_ok"
  proof -
    from ok assms(1) obtain b where b: "findById i s = Some b"
      by (auto simp: cancelBooking_def split: option.splits)
    from ok assms(1) b obtain b1 s1 where
      sv: "save_existing e (b\<lparr>status := Cancelled\<rparr>) s = Inr (b1, s1)"
      and s': "snd (cancelBooking e idstr s) = send_whatsapp e Cancellation b1
            (TimeSlot_updateOne (date b1) (effective_time b1) Mark_available s1)"
      by (auto simp: cancelBooking_def split: if_splits sum.splits)
    note D = save_existing_D [OF sv]
    have st: "status b1 = Cancelled"
      using D(2) by simp
    have "findById i s1 = Some b1"
      using save_existing_stored [OF sv] b findById_D [OF b] by simp
    then have "findById i (snd (cancelBooking e idstr s)) = Some b1"
      by (simp add: s' findById_def)
    with st show ?thesis by blast
  qed
qed

text \<open>
  Claim C4 fails on the code where the local day of the server differs from the UTC
  day. On a server five hours west of UTC, a confirmed booking for day 5 is cancelled
  at 10:00 UTC of day 5. It is found, it is not cancelled and its date is not before
  the UTC day of the clock, so the three checks pass; the save then validates the date
  against the local midnight (05:00 UTC of day 5), fails, and the handler answers the
  generic 500 with nothing written.
\<close>

theorem cancel_today_fails_west_of_utc:
  "fst (createBooking new_york_day4 asha_day5 empty_db) =
     Created (asha_booking\<lparr>date := 432000000\<rparr>)
   \<and> findById 1 day5_db_ny = Some (asha_booking\<lparr>date := 432000000\<rparr>)
   \<and> status (asha_booking\<lparr>date := 432000000\<rparr>) = Confirmed
   \<and> utc_midnight (date (asha_booking\<lparr>date := 432000000\<rparr>)) = utc_midnight (now new_york_day5)
   \<and> local_midnight (tz_offset new_york_day5) (now new_york_day5) = 450000000
   \<and> cancelBooking new_york_day5 id1 day5_db_ny = (Rejected Failure, day5_db_ny)
   \<and> http_status (Rejected Failure) = 500"
  by code_simp

subsection \<open>C10: a status update of a past booking\<close>

text \<open>
  Claim C10 fails on the code for a booking whose date is before today. The handler
  has no date check of its own, but its save validates the stored date against the
  midnight of the clock: a status update of a booking for day 5, sent on day 6, is
  answered 500 and nothing is written (the cancel operation answers the past-date
  error for it). For an already cancelled booking of a coming day the update to
  cancelled does succeed, with no message attempted and no update of the slot board,
  where the cancel operation answers the already-cancelled error.
\<close>

theorem update_of_past_booking_fails:
  "fst (createBooking utc_day4 asha_day5 empty_db) =
     Created (asha_booking\<lparr>date := 432000000\<rparr>)
   \<and> findById 1 day5_db = Some (asha_booking\<lparr>date := 432000000\<rparr>)
   \<and> utc_midnight 432000000 < utc_midnight (now utc_day6)
   \<and> updateBooking utc_day6 id1 to_cancelled day5_db = (Rejected Failure, day5_db)
   \<and> http_status (Rejected Failure) = 500
   \<and> cancelBooking utc_day6 id1 day5_db = (Rejected Past_cancel, day5_db)
   \<and> fst (updateBooking utc_server id1 to_cancelled cancelled_db) =
       Updated (asha_booking\<lparr>status := Cancelled\<rparr>)
   \<and> notifications (trace (snd (updateBooking utc_server id1 to_cancelled cancelled_db))) =
       notifications (trace cancelled_db)
   \<and> board_updates (trace (snd (updateBooking utc_server id1 to_cancelled cancelled_db))) =
       board_updates (trace cancelled_db)
   \<and> fst (cancelBooking utc_server id1 cancelled_db) = Rejected Already_cancelled"
  by code_simp

end
